theory Spec2Isabelle
  imports Main "HOL-Library.Sublist"
begin

section \<open>JavaScript values and strings\<close>

text \<open>
  The handler of \<^verbatim>\<open>src/server.ts\<close> receives its arguments and the upstream
  bodies as parsed JSON, so a value is a JSON tree. A number is kept as its canonical
  decimal text (what \<^verbatim>\<open>String\<close> gives for it): the handler never computes with
  numbers, it only tests them for truth and converts them to text. An object is an
  association list in property order; a well-formed object has no repeated key.
  \<^verbatim>\<open>undefined\<close> is no JSON value: a slot that may be undefined is an option.
  The calls of \<^verbatim>\<open>console.error\<close> only log and have no part in the model.

  Strings are \<open>char list\<close>, read as the bytes of UTF-8; \<open>ascii\<close> says that a text
  holds ASCII characters only.

  Where the runtime does what this model does not follow (a function value stored in a
  request, case mapping beyond ASCII, an index or \<^verbatim>\<open>length\<close> assigned on an array or a
  string, the name \<^verbatim>\<open>__proto__\<close>), the model answers \<open>Beyond\<close>: it says nothing there,
  and no property below is stated for such a call. Two things stay outside without a
  mark: an object shared between \<^verbatim>\<open>args.requestBody\<close> and the local \<^verbatim>\<open>requestBody\<close>
  is followed in the local only, which only a descriptor with a parameter itself called
  \<^verbatim>\<open>requestBody\<close> can observe; and the members of a record are kept in the order of
  assignment, where the runtime lists integer-like names first.
\<close>

datatype json =
    JNull
  | JBool bool
  | JNum string
  | JStr string
  | JArr "json list"
  | JObj "(string \<times> json) list"

text \<open>
  \<^verbatim>\<open>String(v)\<close> and \<^verbatim>\<open>${v}\<close>. \<open>None\<close> is the \<^verbatim>\<open>TypeError\<close> of the conversion: an
  object that holds a member \<^verbatim>\<open>toString\<close> of its own (in JSON never a function) has no
  string form, nor has an array with such an element. An array is joined with commas,
  null elements as empty text.
\<close>

fun js_String :: "json \<Rightarrow> string option"
  and join_elements :: "json list \<Rightarrow> string option" where
  "js_String JNull = Some ''null''"
| "js_String (JBool b) = Some (if b then ''true'' else ''false'')"
| "js_String (JNum s) = Some s"
| "js_String (JStr s) = Some s"
| "js_String (JArr xs) = join_elements xs"
| "js_String (JObj kvs) =
     (if map_of kvs ''toString'' = None then Some ''[object Object]'' else None)"
| "join_elements [] = Some []"
| "join_elements [x] = (case x of JNull \<Rightarrow> Some [] | _ \<Rightarrow> js_String x)"
| "join_elements (x # y # ys) =
     (case (case x of JNull \<Rightarrow> Some [] | _ \<Rightarrow> js_String x) of
        None \<Rightarrow> None
      | Some a \<Rightarrow>
          (case join_elements (y # ys) of
             None \<Rightarrow> None
           | Some b \<Rightarrow> Some (a @ '','' @ b)))"

text \<open>\<^verbatim>\<open>String(v)\<close> and \<^verbatim>\<open>${v}\<close> of a slot that may be undefined.\<close>

definition String_of :: "json option \<Rightarrow> string option" where
  "String_of v = (case v of None \<Rightarrow> Some ''undefined'' | Some j \<Rightarrow> js_String j)"

text \<open>Truthiness, as \<^verbatim>\<open>!v\<close> and \<^verbatim>\<open>||\<close> test it.\<close>

fun truthy :: "json \<Rightarrow> bool" where
  "truthy JNull = False"
| "truthy (JBool b) = b"
| "truthy (JNum s) = (s \<noteq> ''0'' \<and> s \<noteq> ''NaN'')"
| "truthy (JStr s) = (s \<noteq> [])"
| "truthy (JArr xs) = True"
| "truthy (JObj kvs) = True"

text \<open>\<^verbatim>\<open>v?.k\<close> for the names \<^verbatim>\<open>error\<close>, \<^verbatim>\<open>message\<close>, \<^verbatim>\<open>detail\<close>: only an object has them.\<close>

fun member :: "json \<Rightarrow> string \<Rightarrow> json option" where
  "member (JObj kvs) k = map_of kvs k"
| "member _ k = None"

text \<open>\<^verbatim>\<open>a || b\<close> on slots: the left operand when it is truthy, else the right one.\<close>

definition js_or :: "json option \<Rightarrow> json option \<Rightarrow> json option" where
  "js_or a b = (case a of Some v \<Rightarrow> (if truthy v then a else b) | None \<Rightarrow> b)"

text \<open>\<^verbatim>\<open>o[k] = v\<close> on a plain record: an existing key keeps its place, a new one is appended.\<close>

fun assign :: "(string \<times> 'v) list \<Rightarrow> string \<Rightarrow> 'v \<Rightarrow> (string \<times> 'v) list" where
  "assign [] k v = [(k, v)]"
| "assign ((k', v') # kvs) k v = (if k' = k then (k, v) # kvs else (k', v') # assign kvs k v)"

text \<open>Decimal text of a natural number, as a status code is interpolated.\<close>

fun decimal :: "nat \<Rightarrow> string" where
  "decimal n =
     (if n < 10 then [''0123456789'' ! n]
      else decimal (n div 10) @ [''0123456789'' ! (n mod 10)])"

text \<open>\<^verbatim>\<open>s.includes(t)\<close>.\<close>

definition str_includes :: "string \<Rightarrow> string \<Rightarrow> bool" where
  "str_includes s t = sublist t s"

definition ascii :: "string \<Rightarrow> bool" where
  "ascii s = list_all (\<lambda>c. (of_char c :: nat) < 128) s"

section \<open>Errors\<close>

text \<open>
  \<^verbatim>\<open>ErrorCode\<close> and \<^verbatim>\<open>McpError\<close> of the protocol SDK. The SDK's constructor
  builds the error's \<^verbatim>\<open>message\<close> from the code number and the text it is given.
\<close>

datatype ErrorCode = InvalidParams | MethodNotFound | RequestTimeout | InternalError

fun code_number :: "ErrorCode \<Rightarrow> string" where
  "code_number InvalidParams = ''-32602''"
| "code_number MethodNotFound = ''-32601''"
| "code_number RequestTimeout = ''-32001''"
| "code_number InternalError = ''-32603''"

datatype McpError = McpError (code: ErrorCode) (reason: string)

definition message :: "McpError \<Rightarrow> string" where
  "message e = ''MCP error '' @ code_number (code e) @ '': '' @ reason e"

text \<open>What axios hands back: the response's status, its content-type header, its body.\<close>

record response =
  status :: nat
  content_type_header :: "string option"
  data :: json

text \<open>
  What a \<^verbatim>\<open>catch\<close> can receive: an axios error (its message, and the response when one
  arrived), a thrown \<^verbatim>\<open>McpError\<close>, any other \<^verbatim>\<open>Error\<close> with its message, or a
  value that is no \<^verbatim>\<open>Error\<close> at all.
\<close>

datatype thrown =
    AxiosError string "response option"
  | Mcp McpError
  | OtherError string
  | NotAnError json

text \<open>The \<^verbatim>\<open>TypeError\<close> of a conversion to text that fails (the message is that of V8).\<close>

definition cannot_convert :: thrown where
  "cannot_convert = OtherError ''Cannot convert object to primitive value''"

text \<open>The result of a step: a value, a throw, or a call the model does not follow.\<close>

datatype 'a result = Gives 'a | Throws thrown | Beyond

text \<open>
  Lines 27-52. The template literals of lines 34-43 convert \<^verbatim>\<open>apiMessage\<close> to text, so
  the function itself throws when the message has no string form.
\<close>

definition mapApiErrorToMcpError :: "thrown \<Rightarrow> thrown + McpError" where
  "mapApiErrorToMcpError error =
     (case error of
        AxiosError axios_message resp \<Rightarrow>
          (let status_opt = map_option status resp;
               body = (case resp of None \<Rightarrow> None | Some r \<Rightarrow> Some (data r));
               field = (\<lambda>k. case body of None \<Rightarrow> None | Some d \<Rightarrow> member d k);
               shown = (case status_opt of None \<Rightarrow> ''undefined'' | Some n \<Rightarrow> decimal n)
           in case String_of (js_or (field ''error'') (js_or (field ''message'')
                     (js_or (field ''detail'') (Some (JStr axios_message))))) of
                None \<Rightarrow> Inl cannot_convert
              | Some apiMessage \<Rightarrow>
                  Inr (if status_opt = Some 400 then
                         McpError InvalidParams (''API Bad Request: '' @ apiMessage)
                       else if status_opt = Some 404 then
                         McpError MethodNotFound (''API Not Found: '' @ apiMessage)
                       else if status_opt = Some 408 then
                         McpError RequestTimeout (''API Request Timeout: '' @ apiMessage)
                       else if status_opt \<in> {Some 500, Some 502, Some 503, Some 504} then
                         McpError InternalError
                           (''API Server Error ('' @ shown @ ''): '' @ apiMessage)
                       else McpError InternalError
                           (''API Request Failed ('' @ shown @ ''): '' @ apiMessage)))
      | Mcp e \<Rightarrow> Inr (McpError InternalError (''Request failed: '' @ message e))
      | OtherError m \<Rightarrow> Inr (McpError InternalError (''Request failed: '' @ m))
      | NotAnError v \<Rightarrow> Inr (McpError InternalError ''An unknown internal error occurred''))"

section \<open>String operations of the runtime\<close>

text \<open>\<^verbatim>\<open>s.toLowerCase()\<close> on ASCII text.\<close>

definition lower_char :: "char \<Rightarrow> char" where
  "lower_char c =
     (case map_of (zip ''ABCDEFGHIJKLMNOPQRSTUVWXYZ'' ''abcdefghijklmnopqrstuvwxyz'') c of
        Some l \<Rightarrow> l
      | None \<Rightarrow> c)"

definition toLowerCase :: "string \<Rightarrow> string" where
  "toLowerCase s = map lower_char s"

text \<open>
  \<^verbatim>\<open>encodeURIComponent\<close>: the characters ECMAScript calls unescaped (letters, digits and
  the marks \<^verbatim>\<open>-_.!~*'()\<close>) stay, every other one becomes \<^verbatim>\<open>%XX\<close> in upper-case hex.
\<close>

definition uriUnescaped :: "char list" where
  "uriUnescaped =
     ''ABCDEFGHIJKLMNOPQRSTUVWXYZabcdefghijklmnopqrstuvwxyz0123456789-_.!~*'' @ [CHR 0x27] @ ''()''"


definition hex_digit :: "nat \<Rightarrow> char" where
  "hex_digit k = ''0123456789ABCDEF'' ! k"

definition encode_char :: "char \<Rightarrow> string" where
  "encode_char c =
     (if c \<in> set uriUnescaped then [c]
      else [CHR ''%'', hex_digit (of_char c div 16), hex_digit (of_char c mod 16)])"

definition encodeURIComponent :: "string \<Rightarrow> string" where
  "encodeURIComponent s = concat (map encode_char s)"



text \<open>
  \<^verbatim>\<open>s.replace(pattern, replacement)\<close> with a string pattern: only the first occurrence
  is replaced, and the replacement text is expanded: \<^verbatim>\<open>$$\<close> is a dollar sign,
  \<^verbatim>\<open>$&\<close> the match, \<^verbatim>\<open>$`\<close> the text before it and \<^verbatim>\<open>$'\<close> the text after it.
\<close>

fun find_first :: "string \<Rightarrow> string \<Rightarrow> (string \<times> string) option" where
  "find_first pat [] = (if pat = [] then Some ([], []) else None)"
| "find_first pat (c # cs) =
     (if prefix pat (c # cs) then Some ([], drop (length pat) (c # cs))
      else map_option (\<lambda>(left, right). (c # left, right)) (find_first pat cs))"

fun expand :: "string \<Rightarrow> string \<Rightarrow> string \<Rightarrow> string \<Rightarrow> string" where
  "expand matched left right [] = []"
| "expand matched left right [c] = [c]"
| "expand matched left right (c # d # r) =
     (if c = CHR ''$'' then
        (if d = CHR ''$'' then CHR ''$'' # expand matched left right r
         else if d = CHR ''&'' then matched @ expand matched left right r
         else if d = CHR ''`'' then left @ expand matched left right r
         else if d = CHR 0x27 then right @ expand matched left right r
         else c # expand matched left right (d # r))
      else c # expand matched left right (d # r))"

definition js_replace :: "string \<Rightarrow> string \<Rightarrow> string \<Rightarrow> string" where
  "js_replace s pat replacement =
     (case find_first pat s of
        None \<Rightarrow> s
      | Some (left, right) \<Rightarrow> left @ expand pat left right replacement @ right)"

text \<open>\<^verbatim>\<open>s.split(sep)\<close> with a one-character separator; the result is never empty.\<close>

fun split :: "char \<Rightarrow> string \<Rightarrow> string list" where
  "split sep [] = [[]]"
| "split sep (c # cs) =
     (if c = sep then [] # split sep cs
      else (case split sep cs of
              x # xs \<Rightarrow> (c # x) # xs
            | [] \<Rightarrow> [[c]]))"

text \<open>\<^verbatim>\<open>JSON.stringify(v, null, 2)\<close>: two spaces of indentation for each level.\<close>

definition lower_hex_digit :: "nat \<Rightarrow> char" where
  "lower_hex_digit k = ''0123456789abcdef'' ! k"

definition quote_char :: "char \<Rightarrow> string" where
  "quote_char c =
     (if c = CHR 0x22 then [CHR 0x5C, CHR 0x22]
      else if c = CHR 0x5C then [CHR 0x5C, CHR 0x5C]
      else if c = CHR 0x08 then [CHR 0x5C, CHR ''b'']
      else if c = CHR 0x09 then [CHR 0x5C, CHR ''t'']
      else if c = CHR 0x0A then [CHR 0x5C, CHR ''n'']
      else if c = CHR 0x0C then [CHR 0x5C, CHR ''f'']
      else if c = CHR 0x0D then [CHR 0x5C, CHR ''r'']
      else if (of_char c :: nat) < 32 then
        [CHR 0x5C, CHR ''u'', CHR ''0'', CHR ''0'',
         lower_hex_digit (of_char c div 16), lower_hex_digit (of_char c mod 16)]
      else [c])"

definition QuoteJSONString :: "string \<Rightarrow> string" where
  "QuoteJSONString s = [CHR 0x22] @ concat (map quote_char s) @ [CHR 0x22]"

fun join :: "string \<Rightarrow> string list \<Rightarrow> string" where
  "join sep [] = []"
| "join sep [x] = x"
| "join sep (x # y # ys) = x @ sep @ join sep (y # ys)"

fun stringify_at :: "string \<Rightarrow> json \<Rightarrow> string"
  and stringify_elements :: "string \<Rightarrow> json list \<Rightarrow> string list"
  and stringify_members :: "string \<Rightarrow> (string \<times> json) list \<Rightarrow> string list" where
  "stringify_at indent JNull = ''null''"
| "stringify_at indent (JBool b) = (if b then ''true'' else ''false'')"
| "stringify_at indent (JNum s) =
     (if s = ''Infinity'' \<or> s = ''-Infinity'' \<or> s = ''NaN'' then ''null'' else s)"
| "stringify_at indent (JStr s) = QuoteJSONString s"
| "stringify_at indent (JArr xs) =
     (if xs = [] then ''[]''
      else ''['' @ [CHR 0x0A] @ (indent @ ''  '')
           @ join ('','' @ [CHR 0x0A] @ (indent @ ''  '')) (stringify_elements (indent @ ''  '') xs)
           @ [CHR 0x0A] @ indent @ '']'')"
| "stringify_at indent (JObj kvs) =
     (if kvs = [] then ''{}''
      else ''{'' @ [CHR 0x0A] @ (indent @ ''  '')
           @ join ('','' @ [CHR 0x0A] @ (indent @ ''  '')) (stringify_members (indent @ ''  '') kvs)
           @ [CHR 0x0A] @ indent @ ''}'')"
| "stringify_elements indent [] = []"
| "stringify_elements indent (x # xs) = stringify_at indent x # stringify_elements indent xs"
| "stringify_members indent [] = []"
| "stringify_members indent ((k, v) # kvs) =
     (QuoteJSONString k @ '': '' @ stringify_at indent v) # stringify_members indent kvs"

definition JSON_stringify :: "json \<Rightarrow> string" where
  "JSON_stringify v = stringify_at [] v"

section \<open>The catalog\<close>

text \<open>
  A tool of \<^verbatim>\<open>tools.js\<close> with the hidden fields the handler reads: \<^verbatim>\<open>_inputSchema\<close>,
  \<^verbatim>\<open>_original_method\<close>, \<^verbatim>\<open>_original_path\<close>, \<^verbatim>\<open>_original_parameters\<close> and
  \<^verbatim>\<open>_original_request_body\<close>. A field that may be undefined or null is an option; the
  stored schema is taken to be there. The catalog itself is a parameter of the handler.
\<close>

record param =
  paramName :: string
  paramIn :: string
  paramRequired :: bool

record request_body_info =
  required :: bool
  content_type :: "string option"

record tool =
  name :: string
  inputSchema :: json
  original_method :: "string option"
  original_path :: "string option"
  original_parameters :: "param list option"
  original_request_body :: "request_body_info option"

section \<open>The call-tool handler\<close>

text \<open>
  \<^verbatim>\<open>args[paramName]\<close> (line 151). The arguments are a plain object, so a name the object
  does not hold is looked for in \<^verbatim>\<open>Object.prototype\<close>: there the read gives a native
  function (for \<^verbatim>\<open>__proto__\<close> the prototype itself), else it gives undefined.
\<close>

definition Object_prototype_members :: "string list" where
  "Object_prototype_members =
     [''constructor'', ''__defineGetter__'', ''__defineSetter__'', ''hasOwnProperty'',
      ''__lookupGetter__'', ''__lookupSetter__'', ''isPrototypeOf'', ''propertyIsEnumerable'',
      ''toString'', ''valueOf'', ''__proto__'', ''toLocaleString'']"

datatype slot = Absent | Own json | Inherited string

definition lookup :: "(string \<times> json) list \<Rightarrow> string \<Rightarrow> slot" where
  "lookup args k =
     (case map_of args k of
        Some v \<Rightarrow> Own v
      | None \<Rightarrow> (if k \<in> set Object_prototype_members then Inherited k else Absent))"

text \<open>\<^verbatim>\<open>v !== undefined && v !== null\<close>.\<close>

fun supplied :: "slot \<Rightarrow> bool" where
  "supplied Absent = False"
| "supplied (Own v) = (v \<noteq> JNull)"
| "supplied (Inherited k) = True"

text \<open>\<^verbatim>\<open>String\<close> of what a read gave; a native function shows its source text.\<close>

fun String_of_slot :: "slot \<Rightarrow> string option" where
  "String_of_slot Absent = Some ''undefined''"
| "String_of_slot (Own v) = js_String v"
| "String_of_slot (Inherited k) =
     Some (if k = ''__proto__'' then ''[object Object]''
           else ''function '' @ (if k = ''constructor'' then ''Object'' else k)
                @ ''() { [native code] }'')"

text \<open>The locals of the \<^verbatim>\<open>try\<close> block.\<close>

record locals =
  targetPath :: string
  queryParams :: "(string \<times> json) list"
  headers :: "(string \<times> string) list"
  requestData :: "json option"
  requestBody :: "json option"

text \<open>
  \<^verbatim>\<open>requestBody[paramName] = paramValue\<close> (line 169) on a truthy body. On an object it
  sets the member. The module is strict code, so on a string, a number or a boolean it
  throws a \<^verbatim>\<open>TypeError\<close> (the message is that of V8). An array keeps its elements, a
  named property being no part of the data sent. A name that is an index or \<^verbatim>\<open>length\<close>
  means something else on an array and on a string, which the model does not follow.
\<close>

definition index_or_length :: "string \<Rightarrow> bool" where
  "index_or_length k =
     (k = ''length'' \<or> (k \<noteq> [] \<and> list_all (\<lambda>c. c \<in> set ''0123456789'') k))"

fun type_name :: "json \<Rightarrow> string" where
  "type_name (JStr s) = ''string''"
| "type_name (JNum s) = ''number''"
| "type_name (JBool b) = ''boolean''"
| "type_name _ = ''object''"

definition cannot_create :: "string \<Rightarrow> string \<Rightarrow> string \<Rightarrow> thrown" where
  "cannot_create k kind shown =
     OtherError (''Cannot create property '' @ [CHR 0x27] @ k @ [CHR 0x27] @ '' on ''
                 @ kind @ '' '' @ [CHR 0x27] @ shown @ [CHR 0x27])"

fun set_member :: "json \<Rightarrow> string \<Rightarrow> json \<Rightarrow> json result" where
  "set_member (JObj kvs) k v = Gives (JObj (assign kvs k v))"
| "set_member (JArr xs) k v = (if index_or_length k then Beyond else Gives (JArr xs))"
| "set_member (JStr s) k v =
     (if index_or_length k then Beyond else Throws (cannot_create k ''string'' s))"
| "set_member (JNum s) k v = Throws (cannot_create k ''number'' s)"
| "set_member (JBool b) k v =
     Throws (cannot_create k ''boolean'' (if b then ''true'' else ''false''))"
| "set_member JNull k v = Beyond"

text \<open>
  Lines 159-170: a supplied value goes where \<^verbatim>\<open>param.in\<close> says. The path and the
  headers take its text. The query and the body take the value itself, which the model
  follows for a value of the arguments' own. An assignment under the name
  \<^verbatim>\<open>__proto__\<close> sets no member, and is not followed.
\<close>

definition place :: "param \<Rightarrow> slot \<Rightarrow> locals \<Rightarrow> locals result" where
  "place param paramValue st =
     (if paramIn param = ''path'' then
        (case String_of_slot paramValue of
           None \<Rightarrow> Throws cannot_convert
         | Some shown \<Rightarrow>
             Gives (st\<lparr>targetPath :=
                      js_replace (targetPath st) (''{'' @ paramName param @ ''}'')
                        (encodeURIComponent shown)\<rparr>))
      else if paramName param = ''__proto__''
              \<and> paramIn param \<in> {''query'', ''header'', ''body''} then Beyond
      else if paramIn param = ''query'' then
        (case paramValue of
           Own v \<Rightarrow> Gives (st\<lparr>queryParams := assign (queryParams st) (paramName param) v\<rparr>)
         | _ \<Rightarrow> Beyond)
      else if paramIn param = ''header'' then
        (case String_of_slot paramValue of
           None \<Rightarrow> Throws cannot_convert
         | Some shown \<Rightarrow>
             Gives (st\<lparr>headers := assign (headers st) (paramName param) shown\<rparr>))
      else if paramIn param = ''body'' then
        (case paramValue of
           Own v \<Rightarrow>
             (case set_member (case requestBody st of
                                 Some b \<Rightarrow> (if truthy b then b else JObj [])
                               | None \<Rightarrow> JObj [])
                     (paramName param) v of
                Gives body \<Rightarrow> Gives (st\<lparr>requestBody := Some body\<rparr>)
              | Throws e \<Rightarrow> Throws e
              | Beyond \<Rightarrow> Beyond)
         | _ \<Rightarrow> Beyond)
      else Gives st)"

text \<open>
  Lines 153-156: the names whose values are lower-cased. The case mapping is followed
  on ASCII text.
\<close>

definition lowercased_names :: "string list" where
  "lowercased_names = [''us_state'', ''country'', ''country_code'']"

definition normalise :: "string \<Rightarrow> slot \<Rightarrow> slot result" where
  "normalise paramName' paramValue =
     (if supplied paramValue \<and> paramName' \<in> set lowercased_names then
        (case String_of_slot paramValue of
           None \<Rightarrow> Throws cannot_convert
         | Some shown \<Rightarrow> (if ascii shown then Gives (Own (JStr (toLowerCase shown))) else Beyond))
      else Gives paramValue)"

text \<open>Lines 149-174: the body of the parameter loop, and what line 173 throws.\<close>

definition missing_parameter :: "string \<Rightarrow> thrown" where
  "missing_parameter paramName' =
     Mcp (McpError InvalidParams (''Missing required parameter: '' @ paramName'))"

definition process_param :: "(string \<times> json) list \<Rightarrow> param \<Rightarrow> locals \<Rightarrow> locals result" where
  "process_param args param st =
     (case normalise (paramName param) (lookup args (paramName param)) of
        Gives paramValue \<Rightarrow>
          (if supplied paramValue then place param paramValue st
           else if paramRequired param then Throws (missing_parameter (paramName param))
           else Gives st)
      | Throws e \<Rightarrow> Throws e
      | Beyond \<Rightarrow> Beyond)"

text \<open>Line 148: the loop over the declared parameters; a throw leaves it.\<close>

fun process_parameters :: "(string \<times> json) list \<Rightarrow> param list \<Rightarrow> locals \<Rightarrow> locals result" where
  "process_parameters args [] st = Gives st"
| "process_parameters args (param # rest) st =
     (case process_param args param st of
        Gives st' \<Rightarrow> process_parameters args rest st'
      | Throws e \<Rightarrow> Throws e
      | Beyond \<Rightarrow> Beyond)"

text \<open>\<^verbatim>\<open>v !== undefined && v !== null\<close> for the body slot.\<close>

definition present :: "json option \<Rightarrow> bool" where
  "present v = (v \<noteq> None \<and> v \<noteq> Some JNull)"

text \<open>Lines 177-186: the request body and its content type, and what line 183 throws.\<close>

definition missing_requestBody :: thrown where
  "missing_requestBody = Mcp (McpError InvalidParams ''Missing required requestBody'')"

definition process_requestBody :: "request_body_info option \<Rightarrow> locals \<Rightarrow> locals result" where
  "process_requestBody originalRequestBodyInfo st =
     (if originalRequestBodyInfo \<noteq> None \<and> present (requestBody st) then
        Gives (st\<lparr>requestData := requestBody st,
                  headers := assign (headers st) ''Content-Type''
                    (case originalRequestBodyInfo of
                       Some info \<Rightarrow>
                         (case content_type info of
                            Some ct \<Rightarrow> (if ct \<noteq> [] then ct else ''application/json'')
                          | None \<Rightarrow> ''application/json'')
                     | None \<Rightarrow> ''application/json'')\<rparr>)
      else if (case originalRequestBodyInfo of Some info \<Rightarrow> required info | None \<Rightarrow> False) then
        Throws missing_requestBody
      else if requestData st \<noteq> None then
        Gives (st\<lparr>headers := assign (headers st) ''Content-Type'' ''application/json''\<rparr>)
      else Gives st)"

text \<open>Lines 137-145: the locals as the \<^verbatim>\<open>try\<close> block starts; \<open>API_KEY\<close> may be unset.\<close>

definition initial_locals :: "string option \<Rightarrow> string \<Rightarrow> (string \<times> json) list \<Rightarrow> locals" where
  "initial_locals API_KEY originalPath args =
     \<lparr>targetPath = originalPath,
      queryParams = [],
      headers = assign [(''Accept'', ''application/json''), (''User-Agent'', ''ahrefs-mcp-server'')]
                  ''Authorization''
                  (''Bearer '' @ (case API_KEY of Some k \<Rightarrow> k | None \<Rightarrow> ''undefined'')),
      requestData = None,
      requestBody = map_of args ''requestBody''\<rparr>"

text \<open>The configuration handed to \<^verbatim>\<open>axiosInstance.request\<close> (lines 191-198).\<close>

record request =
  req_method :: string
  req_url :: string
  req_params :: "(string \<times> json) list"
  req_headers :: "(string \<times> string) list"
  req_data :: "json option"

text \<open>Lines 137-196 up to the call: the argument mapping, which ends in a request or a throw.\<close>

definition map_arguments ::
  "string option \<Rightarrow> string \<Rightarrow> string \<Rightarrow> param list \<Rightarrow> request_body_info option \<Rightarrow>
   (string \<times> json) list \<Rightarrow> request result" where
  "map_arguments API_KEY originalMethod originalPath originalParameters originalRequestBodyInfo args =
     (case process_parameters args originalParameters (initial_locals API_KEY originalPath args) of
        Gives st \<Rightarrow>
          (case process_requestBody originalRequestBodyInfo st of
             Gives st' \<Rightarrow>
               Gives \<lparr>req_method = originalMethod,
                      req_url = targetPath st',
                      req_params = queryParams st',
                      req_headers = headers st',
                      req_data = requestData st'\<rparr>
           | Throws e \<Rightarrow> Throws e
           | Beyond \<Rightarrow> Beyond)
      | Throws e \<Rightarrow> Throws e
      | Beyond \<Rightarrow> Beyond)"

text \<open>
  The upstream is a parameter: for a request it answers with a response or with none
  (a network failure, with axios' message). \<^verbatim>\<open>validateStatus\<close> of line 197 decides
  which responses axios returns and which it throws as an error carrying the response.
\<close>

datatype network = Responded response | NoResponse string

definition validateStatus :: "nat \<Rightarrow> bool" where
  "validateStatus n = (200 \<le> n \<and> n < 300)"

definition axios_request :: "(request \<Rightarrow> network) \<Rightarrow> request \<Rightarrow> thrown + response" where
  "axios_request upstream config =
     (case upstream config of
        Responded r \<Rightarrow>
          (if validateStatus (status r) then Inr r
           else Inl (AxiosError (''Request failed with status code '' @ decimal (status r)) (Some r)))
      | NoResponse m \<Rightarrow> Inl (AxiosError m None))"

text \<open>
  Lines 203-214: the text of a successful response. \<^verbatim>\<open>JSON.stringify\<close> does not throw
  on a JSON tree, so the fallback of lines 208-211 has no branch here; \<^verbatim>\<open>String\<close> of
  line 213 throws on a body without string form.
\<close>

fun typeof_object :: "json \<Rightarrow> bool" where
  "typeof_object JNull = True"
| "typeof_object (JArr xs) = True"
| "typeof_object (JObj kvs) = True"
| "typeof_object _ = False"

definition responseText :: "response \<Rightarrow> thrown + string" where
  "responseText r =
     (if (case content_type_header r of
            Some responseContentType \<Rightarrow>
              responseContentType \<noteq> [] \<and> str_includes responseContentType ''application/json''
          | None \<Rightarrow> False) \<and> typeof_object (data r)
      then Inr (JSON_stringify (data r))
      else (case js_String (data r) of
              None \<Rightarrow> Inl cannot_convert
            | Some shown \<Rightarrow> Inr shown))"

text \<open>
  The result of a call. \<open>Rejected\<close> is a throw that leaves the handler, which the SDK
  answers with a protocol error: of the thrown code for an \<^verbatim>\<open>McpError\<close>, an internal
  error for anything else. \<open>Resolved\<close> is a returned \<^verbatim>\<open>CallToolResult\<close>, whose
  \<^verbatim>\<open>isError\<close> and \<^verbatim>\<open>error\<close> fields may be absent; a content item is the source's
  \<^verbatim>\<open>{type, text}\<close>. \<open>Unfollowed\<close> is a call the model does not follow.
\<close>

record content_item =
  item_type :: string
  text_of :: string

record CallToolResult =
  content :: "content_item list"
  isError :: "bool option"
  error :: "McpError option"

datatype outcome = Rejected thrown | Resolved CallToolResult | Unfollowed


text \<open>Lines 218-226: the \<^verbatim>\<open>catch\<close> block; a throw of line 220 leaves the handler.\<close>

definition caught :: "thrown \<Rightarrow> outcome" where
  "caught e =
     (case mapApiErrorToMcpError e of
        Inl thrown_again \<Rightarrow> Rejected thrown_again
      | Inr mcpError \<Rightarrow>
          Resolved \<lparr>content = [\<lparr>item_type = ''text'', text_of = message mcpError\<rparr>],
                    isError = Some True,
                    error = Some mcpError\<rparr>)"

text \<open>Lines 109-117: the \<^verbatim>\<open>doc\<close> tool, outside the \<^verbatim>\<open>try\<close> block.\<close>

definition doc_tool :: "tool list \<Rightarrow> (string \<times> json) list \<Rightarrow> outcome" where
  "doc_tool tools args =
     (case String_of_slot (lookup args ''tool'') of
        None \<Rightarrow> Rejected cannot_convert
      | Some shown \<Rightarrow>
          (let requestedToolName = last (split CHR ''_'' shown)
           in case find (\<lambda>t. name t = requestedToolName) tools of
                None \<Rightarrow> Rejected (Mcp (McpError MethodNotFound
                           (''Tool '' @ [CHR 0x27] @ requestedToolName @ [CHR 0x27] @ '' not found.'')))
              | Some requestedTool \<Rightarrow>
                  Resolved \<lparr>content = [\<lparr>item_type = ''text'',
                                         text_of = JSON_stringify (inputSchema requestedTool)\<rparr>],
                            isError = None, error = None\<rparr>))"

text \<open>
  Lines 136-226: the \<^verbatim>\<open>try\<close> block with its \<^verbatim>\<open>catch\<close>. It returns the outcome
  together with the requests it handed to the upstream, in order.
\<close>

definition try_block ::
  "string option \<Rightarrow> (request \<Rightarrow> network) \<Rightarrow> string \<Rightarrow> string \<Rightarrow> param list \<Rightarrow>
   request_body_info option \<Rightarrow> (string \<times> json) list \<Rightarrow> outcome \<times> request list" where
  "try_block API_KEY upstream originalMethod originalPath originalParameters
     originalRequestBodyInfo args =
     (case map_arguments API_KEY originalMethod originalPath originalParameters
             originalRequestBodyInfo args of
        Beyond \<Rightarrow> (Unfollowed, [])
      | Throws e \<Rightarrow> (caught e, [])
      | Gives config \<Rightarrow>
          (case axios_request upstream config of
             Inl e \<Rightarrow> (caught e, [config])
           | Inr r \<Rightarrow>
               (case responseText r of
                  Inl e \<Rightarrow> (caught e, [config])
                | Inr shown \<Rightarrow>
                    (Resolved \<lparr>content = [\<lparr>item_type = ''text'', text_of = shown\<rparr>],
                               isError = None, error = None\<rparr>, [config]))))"

text \<open>Lines 104-134: the handler up to the \<^verbatim>\<open>try\<close> block.\<close>

definition configuration_error :: "string \<Rightarrow> thrown" where
  "configuration_error toolName =
     Mcp (McpError InternalError
       (''Internal configuration error for tool '' @ [CHR 0x27] @ toolName @ [CHR 0x27] @ ''.''))"

definition call_tool ::
  "string option \<Rightarrow> tool list \<Rightarrow> (request \<Rightarrow> network) \<Rightarrow> string \<Rightarrow>
   (string \<times> json) list option \<Rightarrow> outcome \<times> request list" where
  "call_tool API_KEY tools upstream toolName arguments =
     (let args = (case arguments of Some a \<Rightarrow> a | None \<Rightarrow> [])
      in if toolName = ''doc'' then (doc_tool tools args, [])
         else
           (case find (\<lambda>t. name t = toolName) tools of
              None \<Rightarrow>
                (Rejected (Mcp (McpError MethodNotFound
                   (''Tool '' @ [CHR 0x27] @ toolName @ [CHR 0x27] @ '' not found.''))), [])
            | Some tool \<Rightarrow>
                (case original_method tool of
                   None \<Rightarrow> (Rejected (configuration_error toolName), [])
                 | Some originalMethod \<Rightarrow>
                     (case original_path tool of
                        None \<Rightarrow> (Rejected (configuration_error toolName), [])
                      | Some originalPath \<Rightarrow>
                          (if originalMethod = [] \<or> originalPath = [] then
                             (Rejected (configuration_error toolName), [])
                           else
                             try_block API_KEY upstream originalMethod originalPath
                               (case original_parameters tool of Some ps \<Rightarrow> ps | None \<Rightarrow> [])
                               (original_request_body tool) args)))))"

section \<open>Notions the properties are stated with\<close>

text \<open>
  The value of the first of the named fields, in the order given, that the body holds
  with a truthy value.
\<close>

definition first_truthy_field :: "json \<Rightarrow> string list \<Rightarrow> json option" where
  "first_truthy_field body names = find truthy (List.map_filter (member body) names)"





declare decimal.simps [simp del]

section \<open>The parameter loop\<close>











section \<open>The handler around the mapping\<close>

lemma requestBody_initial [simp]:
  "requestBody (initial_locals K path args) = map_of args ''requestBody''"
  by (simp add: initial_locals_def)

lemma map_arguments_throws:
  "process_parameters args ps (initial_locals K path args) = Throws e \<Longrightarrow>
   map_arguments K m path ps info args = Throws e"
  by (simp add: map_arguments_def)


lemma try_block_throws:
  "map_arguments K m path ps info args = Throws e \<Longrightarrow>
   try_block K up m path ps info args = (caught e, [])"
  by (simp add: try_block_def)

lemma caught_mcp:
  "caught (Mcp e)
     = Resolved \<lparr>content = [\<lparr>item_type = ''text'',
            text_of = message (McpError InternalError (''Request failed: '' @ message e))\<rparr>],
          isError = Some True,
          error = Some (McpError InternalError (''Request failed: '' @ message e))\<rparr>"
  by (simp add: caught_def mapApiErrorToMcpError_def)


section \<open>The error translation\<close>

lemma js_or_chain:
  "js_or (member d ''error'') (js_or (member d ''message'')
      (js_or (member d ''detail'') (Some (JStr m))))
   = (case first_truthy_field d [''error'', ''message'', ''detail''] of
        Some v \<Rightarrow> Some v
      | None \<Rightarrow> Some (JStr m))"
  by (auto simp: js_or_def first_truthy_field_def split: option.splits)

lemma decimal_examples:
  "decimal 404 = ''404''" "decimal 503 = ''503''" "decimal 418 = ''418''"
  by code_simp+

text \<open>
  Claim C5, as the code has it. For an axios error that carries a response, take the
  first of the body's fields \<^verbatim>\<open>error\<close>, \<^verbatim>\<open>message\<close>, \<^verbatim>\<open>detail\<close> that holds a truthy
  value, and axios' own message when none does; let it have the string form
  \<open>apiMessage\<close> (a string or a number is its own text). Then status 400 gives
  \<open>InvalidParams\<close>, 404 \<open>MethodNotFound\<close>, 408 \<open>RequestTimeout\<close>; 500, 502, 503 and 504
  give \<open>InternalError\<close> with the status in the text, and so does every other status,
  under another heading. An axios error without a response, any other \<^verbatim>\<open>Error\<close> and a
  thrown value that is no \<^verbatim>\<open>Error\<close> give \<open>InternalError\<close> as well.
\<close>

theorem mapApiErrorToMcpError_table:
  assumes "(case first_truthy_field (data r) [''error'', ''message'', ''detail''] of
              Some v \<Rightarrow> js_String v
            | None \<Rightarrow> Some m) = Some apiMessage"
  shows "(status r = 400 \<longrightarrow> mapApiErrorToMcpError (AxiosError m (Some r))
            = Inr (McpError InvalidParams (''API Bad Request: '' @ apiMessage)))
     \<and> (status r = 404 \<longrightarrow> mapApiErrorToMcpError (AxiosError m (Some r))
            = Inr (McpError MethodNotFound (''API Not Found: '' @ apiMessage)))
     \<and> (status r = 408 \<longrightarrow> mapApiErrorToMcpError (AxiosError m (Some r))
            = Inr (McpError RequestTimeout (''API Request Timeout: '' @ apiMessage)))
     \<and> (status r \<in> {500, 502, 503, 504} \<longrightarrow> mapApiErrorToMcpError (AxiosError m (Some r))
            = Inr (McpError InternalError
                (''API Server Error ('' @ decimal (status r) @ ''): '' @ apiMessage)))
     \<and> (status r \<notin> {400, 404, 408, 500, 502, 503, 504} \<longrightarrow>
          mapApiErrorToMcpError (AxiosError m (Some r))
            = Inr (McpError InternalError
                (''API Request Failed ('' @ decimal (status r) @ ''): '' @ apiMessage)))
     \<and> (first_truthy_field (data r) [''error'', ''message'', ''detail''] = Some (JStr s)
          \<longrightarrow> apiMessage = s)
     \<and> (first_truthy_field (data r) [''error'', ''message'', ''detail''] = Some (JNum s)
          \<longrightarrow> apiMessage = s)
     \<and> (first_truthy_field (data r) [''error'', ''message'', ''detail''] = Some (JBool True)
          \<longrightarrow> apiMessage = ''true'')
     \<and> (first_truthy_field (data r) [''error'', ''message'', ''detail''] = None
          \<longrightarrow> apiMessage = m)
     \<and> mapApiErrorToMcpError (AxiosError m' None)
         = Inr (McpError InternalError (''API Request Failed (undefined): '' @ m'))
     \<and> mapApiErrorToMcpError (Mcp e') = Inr (McpError InternalError (''Request failed: '' @ message e'))
     \<and> mapApiErrorToMcpError (OtherError m') = Inr (McpError InternalError (''Request failed: '' @ m'))
     \<and> mapApiErrorToMcpError (NotAnError v)
         = Inr (McpError InternalError ''An unknown internal error occurred'')"
proof -
  have shown: "String_of (js_or (member (data r) ''error'') (js_or (member (data r) ''message'')
      (js_or (member (data r) ''detail'') (Some (JStr m))))) = Some apiMessage"
    using assms by (simp add: js_or_chain String_of_def split: option.splits)
  have none: "String_of (js_or None (js_or None (js_or None (Some (JStr m'))))) = Some m'"
    by (simp add: js_or_def String_of_def)
  show ?thesis
    using assms
    by (intro conjI impI) (auto simp: mapApiErrorToMcpError_def shown none Let_def)
qed

text \<open>
  The table at three responses: 404 with \<^verbatim>\<open>{"error":"not found"}\<close>; 503 whose
  \<^verbatim>\<open>error\<close> field is the empty string, so that \<^verbatim>\<open>detail\<close> is taken; 418 with a body
  that is no object, so that axios' message is taken.
\<close>

theorem mapApiErrorToMcpError_table_witness:
  "mapApiErrorToMcpError (AxiosError ''Request failed with status code 404''
      (Some \<lparr>status = 404, content_type_header = Some ''application/json'',
             data = JObj [(''error'', JStr ''not found'')]\<rparr>))
     = Inr (McpError MethodNotFound ''API Not Found: not found'')
   \<and> mapApiErrorToMcpError (AxiosError ''Request failed with status code 503''
      (Some \<lparr>status = 503, content_type_header = None,
             data = JObj [(''error'', JStr []), (''detail'', JStr ''overloaded'')]\<rparr>))
     = Inr (McpError InternalError ''API Server Error (503): overloaded'')
   \<and> mapApiErrorToMcpError (AxiosError ''Request failed with status code 418''
      (Some \<lparr>status = 418, content_type_header = None, data = JStr ''teapot''\<rparr>))
     = Inr (McpError InternalError ''API Request Failed (418): Request failed with status code 418'')"
proof -
  let ?r1 = "\<lparr>status = 404, content_type_header = Some ''application/json'',
              data = JObj [(''error'', JStr ''not found'')]\<rparr>"
  let ?r2 = "\<lparr>status = 503, content_type_header = None,
              data = JObj [(''error'', JStr []), (''detail'', JStr ''overloaded'')]\<rparr>"
  let ?r3 = "\<lparr>status = 418, content_type_header = None, data = JStr ''teapot''\<rparr>"
  have h1: "(case first_truthy_field (data ?r1) [''error'', ''message'', ''detail''] of
              Some v \<Rightarrow> js_String v
            | None \<Rightarrow> Some ''Request failed with status code 404'') = Some ''not found''"
    by (simp add: first_truthy_field_def)
  have h2: "(case first_truthy_field (data ?r2) [''error'', ''message'', ''detail''] of
              Some v \<Rightarrow> js_String v
            | None \<Rightarrow> Some ''Request failed with status code 503'') = Some ''overloaded''"
    by (simp add: first_truthy_field_def)
  have h3: "(case first_truthy_field (data ?r3) [''error'', ''message'', ''detail''] of
              Some v \<Rightarrow> js_String v
            | None \<Rightarrow> Some ''Request failed with status code 418'')
          = Some ''Request failed with status code 418''"
    by (simp add: first_truthy_field_def)
  from mapApiErrorToMcpError_table[OF h1] mapApiErrorToMcpError_table[OF h2]
    mapApiErrorToMcpError_table[OF h3]
  show ?thesis by (simp add: decimal_examples)
qed

text \<open>
  As C5 is worded, the translation is total. A 400 response whose \<^verbatim>\<open>error\<close> field is
  an object with a \<^verbatim>\<open>toString\<close> member of its own has a message without string form:
  the template literal of line 34 throws, inside the \<^verbatim>\<open>catch\<close> block, and the throw
  leaves the handler.
\<close>

theorem mapApiErrorToMcpError_table_counterexample:
  "mapApiErrorToMcpError (AxiosError ''Request failed with status code 400''
      (Some \<lparr>status = 400, content_type_header = Some ''application/json'',
             data = JObj [(''error'', JObj [(''toString'', JNull)])]\<rparr>))
     = Inl cannot_convert
   \<and> call_tool (Some ''key'')
      [\<lparr>name = ''links'', inputSchema = JObj [],
        original_method = Some ''GET'', original_path = Some ''/v3/links'',
        original_parameters = None, original_request_body = None\<rparr>]
      (\<lambda>config. Responded \<lparr>status = 400, content_type_header = Some ''application/json'',
                              data = JObj [(''error'', JObj [(''toString'', JNull)])]\<rparr>)
      ''links'' None
     = (Rejected cannot_convert,
        [\<lparr>req_method = ''GET'', req_url = ''/v3/links'', req_params = [],
          req_headers = [(''Accept'', ''application/json''),
                         (''User-Agent'', ''ahrefs-mcp-server''),
                         (''Authorization'', ''Bearer key'')],
          req_data = None\<rparr>])"
  by code_simp

section \<open>Validation of the arguments\<close>




subsection \<open>The required request body\<close>




subsection \<open>Null and absent arguments\<close>














section \<open>Validation failures and the catch block\<close>

text \<open>
  The two validation errors are thrown inside the \<^verbatim>\<open>try\<close> block, so the \<^verbatim>\<open>catch\<close> of
  line 218 receives them like any upstream failure: the handler returns a result with
  \<^verbatim>\<open>isError\<close> set, and \<open>mapApiErrorToMcpError\<close>, which knows them only as instances of
  \<^verbatim>\<open>Error\<close>, replaces their code by \<open>InternalError\<close>.
\<close>

lemma validation_failure_is_enveloped:
  assumes "map_arguments K m path ps info args = Throws (Mcp e)"
  shows "try_block K upstream m path ps info args
     = (Resolved \<lparr>content = [\<lparr>item_type = ''text'',
            text_of = message (McpError InternalError (''Request failed: '' @ message e))\<rparr>],
          isError = Some True,
          error = Some (McpError InternalError (''Request failed: '' @ message e))\<rparr>, [])"
  using assms by (simp add: try_block_throws caught_mcp)

text \<open>
  Claim C1 says that a call whose arguments fail validation is rejected with a protocol
  error of code \<open>InvalidParams\<close> and never answered by a result with \<^verbatim>\<open>isError\<close> set. The
  handler does the opposite at both validation failures: a call that omits the required
  \<^verbatim>\<open>target\<close>, and a call without the required request body, each get a returned result
  with \<^verbatim>\<open>isError\<close> set and an error of code \<open>InternalError\<close>.
\<close>

theorem validation_failure_outcome:
  "call_tool (Some ''key'')
      [\<lparr>name = ''getBacklinks'', inputSchema = JObj [],
        original_method = Some ''GET'', original_path = Some ''/v3/{target}'',
        original_parameters =
          Some [\<lparr>paramName = ''target'', paramIn = ''path'', paramRequired = True\<rparr>],
        original_request_body = None\<rparr>]
      (\<lambda>config. NoResponse ''offline'') ''getBacklinks'' (Some [])
     = (Resolved \<lparr>content =
          [\<lparr>item_type = ''text'',
            text_of = ''MCP error -32603: Request failed: MCP error -32602: Missing required parameter: target''\<rparr>],
          isError = Some True,
          error = Some (McpError InternalError
            ''Request failed: MCP error -32602: Missing required parameter: target'')\<rparr>, [])
   \<and> call_tool (Some ''key'')
      [\<lparr>name = ''batch'', inputSchema = JObj [],
        original_method = Some ''POST'', original_path = Some ''/v3/batch'',
        original_parameters = Some [],
        original_request_body = Some \<lparr>required = True, content_type = None\<rparr>\<rparr>]
      (\<lambda>config. NoResponse ''offline'') ''batch'' (Some [])
     = (Resolved \<lparr>content =
          [\<lparr>item_type = ''text'',
            text_of = ''MCP error -32603: Request failed: MCP error -32602: Missing required requestBody''\<rparr>],
          isError = Some True,
          error = Some (McpError InternalError
            ''Request failed: MCP error -32602: Missing required requestBody'')\<rparr>, [])"
  by code_simp

section \<open>A body without body metadata\<close>

text \<open>
  \<^verbatim>\<open>requestData\<close> is assigned in the first branch of lines 178-186 only, which needs the
  metadata; the third branch tests \<^verbatim>\<open>requestData\<close>, which is still undefined there.
\<close>

lemma place_keeps_requestData:
  "place p v st = Gives st' \<Longrightarrow> requestData st' = requestData st"
  by (auto simp: place_def split: if_splits option.splits slot.splits result.splits)

lemma process_param_keeps_requestData:
  "process_param args p st = Gives st' \<Longrightarrow> requestData st' = requestData st"
  by (auto simp: process_param_def split: result.splits if_splits dest: place_keeps_requestData)

lemma process_parameters_keeps_requestData:
  "process_parameters args ps st = Gives st' \<Longrightarrow> requestData st' = requestData st"
proof (induction ps arbitrary: st)
  case Nil
  then show ?case by simp
next
  case (Cons q ps)
  then show ?case
    by (auto split: result.splits dest: process_param_keeps_requestData)
qed

lemma no_metadata_no_body:
  assumes "map_arguments K m path ps None args = Gives config"
  shows "req_data config = None"
proof -
  from assms obtain st where st: "process_parameters args ps (initial_locals K path args) = Gives st"
    by (auto simp: map_arguments_def split: result.splits)
  from process_parameters_keeps_requestData[OF st]
  have none: "requestData st = None" by (simp add: initial_locals_def)
  then have "process_requestBody None st = Gives st" by (simp add: process_requestBody_def)
  with assms st none show ?thesis by (auto simp: map_arguments_def)
qed

text \<open>
  Claim C2 says that a body supplied for a descriptor without body metadata is still sent,
  with the content type \<^verbatim>\<open>application/json\<close>. The handler sends neither: for a tool
  without metadata, called with a \<^verbatim>\<open>requestBody\<close> and a body-located parameter, the
  request handed to the upstream has no data and no \<^verbatim>\<open>Content-Type\<close> header.
\<close>

theorem body_without_metadata_outcome:
  "call_tool (Some ''key'')
      [\<lparr>name = ''batch'', inputSchema = JObj [],
        original_method = Some ''POST'', original_path = Some ''/v3/batch'',
        original_parameters =
          Some [\<lparr>paramName = ''limit'', paramIn = ''body'', paramRequired = False\<rparr>],
        original_request_body = None\<rparr>]
      (\<lambda>config. Responded \<lparr>status = 200, content_type_header = None, data = JStr ''ok''\<rparr>)
      ''batch''
      (Some [(''requestBody'', JObj [(''targets'', JArr [JStr ''a.com''])]), (''limit'', JNum ''5'')])
     = (Resolved \<lparr>content = [\<lparr>item_type = ''text'', text_of = ''ok''\<rparr>],
                   isError = None, error = None\<rparr>,
        [\<lparr>req_method = ''POST'', req_url = ''/v3/batch'', req_params = [],
          req_headers = [(''Accept'', ''application/json''),
                         (''User-Agent'', ''ahrefs-mcp-server''),
                         (''Authorization'', ''Bearer key'')],
          req_data = None\<rparr>])"
  by code_simp



section \<open>Percent-encoding and case\<close>






















section \<open>Path parameters\<close>




section \<open>Lower-cased parameters\<close>





section \<open>Pretty printing\<close>

text \<open>
  \<^verbatim>\<open>JSON.stringify(v, null, 2)\<close> has the shape the standard gives it: the elements of
  an array and the members of an object each on a line, indented by two more spaces than
  the value that holds them.
\<close>

lemma stringify_elements_map: "stringify_elements ind xs = map (stringify_at ind) xs"
  by (induction xs) simp_all

lemma stringify_members_map:
  "stringify_members ind kvs
     = map (\<lambda>kv. stringify_at ind (JStr (fst kv)) @ '': '' @ stringify_at ind (snd kv)) kvs"
  by (induction kvs) auto

lemma join_Cons: "ys \<noteq> [] \<Longrightarrow> join sep (y # ys) = y @ sep @ join sep ys"
  by (cases ys) simp_all

lemma join_lines:
  "ys \<noteq> [] \<Longrightarrow>
   pre @ join ('','' @ [CHR 0x0A] @ pre) ys
     = concat (map (\<lambda>y. pre @ y @ '','' @ [CHR 0x0A]) (butlast ys)) @ pre @ last ys"
proof (induction ys)
  case Nil
  then show ?case by simp
next
  case (Cons y ys)
  show ?case
  proof (cases "ys = []")
    case True
    then show ?thesis by simp
  next
    case False
    with Cons.IH show ?thesis by (simp add: join_Cons)
  qed
qed

lemma quote_plain_char:
  "32 \<le> (of_char c :: nat) \<Longrightarrow> c \<noteq> CHR 0x22 \<Longrightarrow> c \<noteq> CHR 0x5C \<Longrightarrow> quote_char c = [c]"
proof -
  assume a: "32 \<le> (of_char c :: nat)" "c \<noteq> CHR 0x22" "c \<noteq> CHR 0x5C"
  have "c \<noteq> CHR 0x08" "c \<noteq> CHR 0x09" "c \<noteq> CHR 0x0A" "c \<noteq> CHR 0x0C" "c \<noteq> CHR 0x0D"
    using a(1) by auto
  with a show ?thesis by (simp add: quote_char_def)
qed

lemma quote_plain:
  "\<forall>c\<in>set t. 32 \<le> (of_char c :: nat) \<and> c \<noteq> CHR 0x22 \<and> c \<noteq> CHR 0x5C \<Longrightarrow>
   QuoteJSONString t = [CHR 0x22] @ t @ [CHR 0x22]"
proof -
  assume a: "\<forall>c\<in>set t. 32 \<le> (of_char c :: nat) \<and> c \<noteq> CHR 0x22 \<and> c \<noteq> CHR 0x5C"
  then have "concat (map quote_char t) = t"
    by (induction t) (simp_all add: quote_plain_char)
  then show ?thesis by (simp add: QuoteJSONString_def)
qed

lemma pretty_printing:
  "stringify_at ind JNull = ''null''
   \<and> stringify_at ind (JBool True) = ''true'' \<and> stringify_at ind (JBool False) = ''false''
   \<and> (n \<noteq> ''Infinity'' \<and> n \<noteq> ''-Infinity'' \<and> n \<noteq> ''NaN'' \<longrightarrow> stringify_at ind (JNum n) = n)
   \<and> ((\<forall>c\<in>set t. 32 \<le> (of_char c :: nat) \<and> c \<noteq> CHR 0x22 \<and> c \<noteq> CHR 0x5C)
        \<longrightarrow> stringify_at ind (JStr t) = [CHR 0x22] @ t @ [CHR 0x22])
   \<and> stringify_at ind (JArr []) = ''[]'' \<and> stringify_at ind (JObj []) = ''{}''
   \<and> (xs \<noteq> [] \<longrightarrow> stringify_at ind (JArr xs)
          = ''['' @ [CHR 0x0A]
            @ concat (map (\<lambda>x. ind @ ''  '' @ stringify_at (ind @ ''  '') x @ '','' @ [CHR 0x0A])
                        (butlast xs))
            @ ind @ ''  '' @ stringify_at (ind @ ''  '') (last xs) @ [CHR 0x0A] @ ind @ '']'')
   \<and> (kvs \<noteq> [] \<longrightarrow> stringify_at ind (JObj kvs)
          = ''{'' @ [CHR 0x0A]
            @ concat (map (\<lambda>kv. ind @ ''  '' @ stringify_at (ind @ ''  '') (JStr (fst kv)) @ '': ''
                                  @ stringify_at (ind @ ''  '') (snd kv) @ '','' @ [CHR 0x0A])
                        (butlast kvs))
            @ ind @ ''  '' @ stringify_at (ind @ ''  '') (JStr (fst (last kvs))) @ '': ''
            @ stringify_at (ind @ ''  '') (snd (last kvs)) @ [CHR 0x0A] @ ind @ ''}'')
   \<and> JSON_stringify w = stringify_at [] w"
proof -
  have arr: "stringify_at ind (JArr xs)
          = ''['' @ [CHR 0x0A]
            @ concat (map (\<lambda>x. ind @ ''  '' @ stringify_at (ind @ ''  '') x @ '','' @ [CHR 0x0A])
                        (butlast xs))
            @ ind @ ''  '' @ stringify_at (ind @ ''  '') (last xs) @ [CHR 0x0A] @ ind @ '']''"
    if "xs \<noteq> []"
  proof -
    have ne: "map (stringify_at (ind @ ''  '')) xs \<noteq> []" using that by simp
    from join_lines[OF ne, of "ind @ ''  ''"] that
    show ?thesis
      by (simp add: stringify_elements_map map_butlast[symmetric] last_map comp_def)
  qed
  have obj: "stringify_at ind (JObj kvs)
          = ''{'' @ [CHR 0x0A]
            @ concat (map (\<lambda>kv. ind @ ''  '' @ stringify_at (ind @ ''  '') (JStr (fst kv)) @ '': ''
                                  @ stringify_at (ind @ ''  '') (snd kv) @ '','' @ [CHR 0x0A])
                        (butlast kvs))
            @ ind @ ''  '' @ stringify_at (ind @ ''  '') (JStr (fst (last kvs))) @ '': ''
            @ stringify_at (ind @ ''  '') (snd (last kvs)) @ [CHR 0x0A] @ ind @ ''}''"
    if "kvs \<noteq> []"
  proof -
    have ne: "map (\<lambda>kv. stringify_at (ind @ ''  '') (JStr (fst kv)) @ '': ''
                 @ stringify_at (ind @ ''  '') (snd kv)) kvs \<noteq> []" using that by simp
    from join_lines[OF ne, of "ind @ ''  ''"] that
    show ?thesis
      by (simp add: stringify_members_map map_butlast[symmetric] last_map comp_def)
  qed
  have str: "stringify_at ind (JStr t) = [CHR 0x22] @ t @ [CHR 0x22]"
    if "\<forall>c\<in>set t. 32 \<le> (of_char c :: nat) \<and> c \<noteq> CHR 0x22 \<and> c \<noteq> CHR 0x5C"
    using quote_plain[OF that] by simp
  show ?thesis using arr obj str by (simp add: JSON_stringify_def)
qed

lemma quoting:
  "stringify_at ind (JStr [CHR 0x22, CHR 0x5C, CHR 0x0A, CHR 0x01])
          = [CHR 0x22, CHR 0x5C, CHR 0x22, CHR 0x5C, CHR 0x5C, CHR 0x5C, CHR ''n'', CHR 0x5C]
            @ ''u0001'' @ [CHR 0x22]
   \<and> stringify_at ind (JNum ''NaN'') = ''null''"
  by (simp add: QuoteJSONString_def quote_char_def lower_hex_digit_def)

lemma slot_forms:
  "String_of_slot Absent = Some ''undefined'' \<and> String_of_slot (Own v) = js_String v
   \<and> String_of_slot (Inherited ''valueOf'') = Some ''function valueOf() { [native code] }''
   \<and> lookup [(''tool'', v)] ''tool'' = Own v \<and> lookup [] ''tool'' = Absent
   \<and> lookup [] ''valueOf'' = Inherited ''valueOf''
   \<and> js_String (JStr a) = Some a \<and> js_String (JNum a) = Some a \<and> js_String JNull = Some ''null''
   \<and> last (split CHR ''_'' ''a_b_c'') = ''c''"
  by (simp add: lookup_def Object_prototype_members_def)


section \<open>The doc tool\<close>

lemma split_not_empty: "split sep s \<noteq> []"
  by (induction s) (auto split: list.splits)

lemma split_without_separator: "sep \<notin> set s \<Longrightarrow> split sep s = [s]"
  by (induction s) auto

lemma split_at_first_separator:
  "sep \<notin> set a \<Longrightarrow> split sep (a @ sep # b) = a # split sep b"
  by (induction a) auto

lemma last_split_after_separator:
  "last (split sep (a @ sep # b)) = last (split sep b)"
proof (induction "length a" arbitrary: a rule: less_induct)
  case less
  show ?case
  proof (cases "sep \<in> set a")
    case False
    then show ?thesis by (simp add: split_at_first_separator split_not_empty)
  next
    case True
    then obtain a1 a2 where a: "a = a1 @ sep # a2" "sep \<notin> set a1"
      by (auto dest: split_list_first)
    then have "split sep (a @ sep # b) = a1 # split sep (a2 @ sep # b)"
      using split_at_first_separator[of sep a1 "a2 @ sep # b"] by simp
    then have "last (split sep (a @ sep # b)) = last (split sep (a2 @ sep # b))"
      by (simp add: split_not_empty)
    also have "\<dots> = last (split sep b)"
      using less[of a2] a by simp
    finally show ?thesis .
  qed
qed

lemma last_split:
  assumes "namespace = [] \<or> last namespace = sep" and "sep \<notin> set requested"
  shows "last (split sep (namespace @ requested)) = requested"
proof (cases "namespace = []")
  case True
  with assms(2) show ?thesis by (simp add: split_without_separator)
next
  case False
  with assms(1) obtain front where "namespace = front @ [sep]"
    by (metis append_butlast_last_id)
  then have "last (split sep (namespace @ requested)) = last (split sep requested)"
    by (simp add: last_split_after_separator)
  with assms(2) show ?thesis by (simp add: split_without_separator)
qed

text \<open>
  Claim C7. A request for the tool \<^verbatim>\<open>doc\<close> whose \<^verbatim>\<open>tool\<close> argument has the string form
  \<open>namespace @ requested\<close>, where \<open>namespace\<close> is empty or ends in an underscore and
  \<open>requested\<close> holds none, makes no request to the upstream; it returns the
  pretty-printed input schema of the first tool named \<open>requested\<close> as one text item, and
  throws \<^verbatim>\<open>MethodNotFound\<close> when no tool has that name.
  The pretty printer and \<^verbatim>\<open>String\<close> are fixed by their laws, which the statement
  carries: \<^verbatim>\<open>null\<close>, the booleans and the finite numbers print as themselves, a string
  without control character, quote or backslash in its quotes, an empty array or object
  as \<^verbatim>\<open>[]\<close> or \<^verbatim>\<open>{}\<close>, and a non-empty one with each element or member on a line of
  its own, two spaces deeper, a comma after all but the last, a colon and a space after
  each key, the closing bracket at the depth of the opening one; a quote, a backslash
  and a control character of a string are escaped.
\<close>

theorem doc_tool_returns_schema:
  assumes "String_of_slot (lookup (case arguments of Some a \<Rightarrow> a | None \<Rightarrow> []) ''tool'')
             = Some (namespace @ requested)"
    and "namespace = [] \<or> last namespace = CHR ''_''"
    and "CHR ''_'' \<notin> set requested"
  shows "(find (\<lambda>t. name t = requested) tools = Some found \<longrightarrow>
            call_tool K tools upstream ''doc'' arguments
              = (Resolved \<lparr>content = [\<lparr>item_type = ''text'',
                                         text_of = JSON_stringify (inputSchema found)\<rparr>],
                           isError = None, error = None\<rparr>, []))
       \<and> ((\<forall>t\<in>set tools. name t \<noteq> requested) \<longrightarrow>
            call_tool K tools upstream ''doc'' arguments
              = (Rejected (Mcp (McpError MethodNotFound
                   (''Tool '' @ [CHR 0x27] @ requested @ [CHR 0x27] @ '' not found.''))), []))
       \<and> stringify_at ind JNull = ''null''
   \<and> stringify_at ind (JBool True) = ''true'' \<and> stringify_at ind (JBool False) = ''false''
   \<and> (n \<noteq> ''Infinity'' \<and> n \<noteq> ''-Infinity'' \<and> n \<noteq> ''NaN'' \<longrightarrow> stringify_at ind (JNum n) = n)
   \<and> ((\<forall>c\<in>set t. 32 \<le> (of_char c :: nat) \<and> c \<noteq> CHR 0x22 \<and> c \<noteq> CHR 0x5C)
        \<longrightarrow> stringify_at ind (JStr t) = [CHR 0x22] @ t @ [CHR 0x22])
   \<and> stringify_at ind (JArr []) = ''[]'' \<and> stringify_at ind (JObj []) = ''{}''
   \<and> (xs \<noteq> [] \<longrightarrow> stringify_at ind (JArr xs)
          = ''['' @ [CHR 0x0A]
            @ concat (map (\<lambda>x. ind @ ''  '' @ stringify_at (ind @ ''  '') x @ '','' @ [CHR 0x0A])
                        (butlast xs))
            @ ind @ ''  '' @ stringify_at (ind @ ''  '') (last xs) @ [CHR 0x0A] @ ind @ '']'')
   \<and> (kvs \<noteq> [] \<longrightarrow> stringify_at ind (JObj kvs)
          = ''{'' @ [CHR 0x0A]
            @ concat (map (\<lambda>kv. ind @ ''  '' @ stringify_at (ind @ ''  '') (JStr (fst kv)) @ '': ''
                                  @ stringify_at (ind @ ''  '') (snd kv) @ '','' @ [CHR 0x0A])
                        (butlast kvs))
            @ ind @ ''  '' @ stringify_at (ind @ ''  '') (JStr (fst (last kvs))) @ '': ''
            @ stringify_at (ind @ ''  '') (snd (last kvs)) @ [CHR 0x0A] @ ind @ ''}'')
   \<and> JSON_stringify w = stringify_at [] w
       \<and> stringify_at ind (JStr [CHR 0x22, CHR 0x5C, CHR 0x0A, CHR 0x01])
          = [CHR 0x22, CHR 0x5C, CHR 0x22, CHR 0x5C, CHR 0x5C, CHR 0x5C, CHR ''n'', CHR 0x5C]
            @ ''u0001'' @ [CHR 0x22]
   \<and> stringify_at ind (JNum ''NaN'') = ''null''
       \<and> String_of_slot Absent = Some ''undefined'' \<and> String_of_slot (Own v) = js_String v
   \<and> String_of_slot (Inherited ''valueOf'') = Some ''function valueOf() { [native code] }''
   \<and> lookup [(''tool'', v)] ''tool'' = Own v \<and> lookup [] ''tool'' = Absent
   \<and> lookup [] ''valueOf'' = Inherited ''valueOf''
   \<and> js_String (JStr a) = Some a \<and> js_String (JNum a) = Some a \<and> js_String JNull = Some ''null''
   \<and> last (split CHR ''_'' ''a_b_c'') = ''c''"
proof -
  have name: "last (split CHR ''_'' (namespace @ requested)) = requested"
    using assms(2,3) by (rule last_split)
  have none: "find (\<lambda>t. name t = requested) tools = None"
    if "\<forall>t\<in>set tools. name t \<noteq> requested"
    using that by (simp add: find_None_iff)
  have a: "find (\<lambda>t. name t = requested) tools = Some found \<longrightarrow>
            call_tool K tools upstream ''doc'' arguments
              = (Resolved \<lparr>content = [\<lparr>item_type = ''text'',
                                         text_of = JSON_stringify (inputSchema found)\<rparr>],
                           isError = None, error = None\<rparr>, [])"
    using assms(1) by (simp add: call_tool_def doc_tool_def Let_def name)
  have b: "(\<forall>t\<in>set tools. name t \<noteq> requested) \<longrightarrow>
            call_tool K tools upstream ''doc'' arguments
              = (Rejected (Mcp (McpError MethodNotFound
                   (''Tool '' @ [CHR 0x27] @ requested @ [CHR 0x27] @ '' not found.''))), [])"
    using assms(1) none by (simp add: call_tool_def doc_tool_def Let_def name)
  from a b pretty_printing[of ind n t xs kvs w] quoting[of ind] slot_forms[of v a]
  show ?thesis by (intro conjI) blast+
qed

text \<open>
  The request of the specification, \<^verbatim>\<open>{tool: "namespace_getBacklinks"}\<close>, and one for a
  tool that the catalog does not hold.
\<close>

theorem doc_tool_returns_schema_witness:
  "call_tool (Some ''key'')
      [\<lparr>name = ''getBacklinks'', inputSchema = JObj [(''type'', JStr ''object'')],
        original_method = Some ''GET'', original_path = Some ''/v3/{target}'',
        original_parameters = None, original_request_body = None\<rparr>]
      (\<lambda>config. NoResponse ''offline'') ''doc''
      (Some [(''tool'', JStr ''namespace_getBacklinks'')])
     = (Resolved \<lparr>content =
          [\<lparr>item_type = ''text'',
            text_of = ''{'' @ [CHR 0x0A] @ ''  '' @ [CHR 0x22] @ ''type'' @ [CHR 0x22] @ '': ''
                        @ [CHR 0x22] @ ''object'' @ [CHR 0x22] @ [CHR 0x0A] @ ''}''\<rparr>],
          isError = None, error = None\<rparr>, [])
   \<and> call_tool (Some ''key'')
      [\<lparr>name = ''getBacklinks'', inputSchema = JObj [(''type'', JStr ''object'')],
        original_method = Some ''GET'', original_path = Some ''/v3/{target}'',
        original_parameters = None, original_request_body = None\<rparr>]
      (\<lambda>config. NoResponse ''offline'') ''doc''
      (Some [(''tool'', JStr ''namespace_getRanks'')])
     = (Rejected (Mcp (McpError MethodNotFound
          (''Tool '' @ [CHR 0x27] @ ''getRanks'' @ [CHR 0x27] @ '' not found.''))), [])
   \<and> stringify_at ''  '' (JStr ''object'') = [CHR 0x22] @ ''object'' @ [CHR 0x22]
   \<and> stringify_at [] (JNum ''1'') = ''1''"
proof -
  let ?tool = "\<lparr>name = ''getBacklinks'', inputSchema = JObj [(''type'', JStr ''object'')],
        original_method = Some ''GET'', original_path = Some ''/v3/{target}'',
        original_parameters = None, original_request_body = None\<rparr>"
  have a1: "String_of_slot (lookup (case Some [(''tool'', JStr ''namespace_getBacklinks'')] of
               Some a \<Rightarrow> a | None \<Rightarrow> []) ''tool'') = Some (''namespace_'' @ ''getBacklinks'')"
    by (simp add: lookup_def)
  have b1: "String_of_slot (lookup (case Some [(''tool'', JStr ''namespace_getRanks'')] of
               Some a \<Rightarrow> a | None \<Rightarrow> []) ''tool'') = Some (''namespace_'' @ ''getRanks'')"
    by (simp add: lookup_def)
  have h2: "''namespace_'' = [] \<or> last ''namespace_'' = CHR ''_''" by simp
  have a3: "CHR ''_'' \<notin> set ''getBacklinks''" by simp
  have b3: "CHR ''_'' \<notin> set ''getRanks''" by simp
  have found: "find (\<lambda>t. name t = ''getBacklinks'') [?tool] = Some ?tool" by simp
  have absent: "\<forall>t\<in>set [?tool]. name t \<noteq> ''getRanks''" by simp
  have plain: "\<forall>c\<in>set ''object''. 32 \<le> (of_char c :: nat) \<and> c \<noteq> CHR 0x22 \<and> c \<noteq> CHR 0x5C"
    by simp
  have number: "''1'' \<noteq> ''Infinity'' \<and> ''1'' \<noteq> ''-Infinity'' \<and> ''1'' \<noteq> ''NaN''" by simp
  have schema: "JSON_stringify (inputSchema ?tool)
      = ''{'' @ [CHR 0x0A] @ ''  '' @ [CHR 0x22] @ ''type'' @ [CHR 0x22] @ '': ''
          @ [CHR 0x22] @ ''object'' @ [CHR 0x22] @ [CHR 0x0A] @ ''}''"
    by code_simp
  from doc_tool_returns_schema[OF a1 h2 a3, where tools = "[?tool]" and found = ?tool
      and K = "Some ''key''" and upstream = "\<lambda>config. NoResponse ''offline''"
      and ind = "''  ''" and n = "''1''" and t = "''object''" and xs = "[]" and kvs = "[]"
      and w = JNull] found plain
  have first: "call_tool (Some ''key'') [?tool] (\<lambda>config. NoResponse ''offline'') ''doc''
      (Some [(''tool'', JStr ''namespace_getBacklinks'')])
     = (Resolved \<lparr>content = [\<lparr>item_type = ''text'',
                                text_of = JSON_stringify (inputSchema ?tool)\<rparr>],
                   isError = None, error = None\<rparr>, [])
     \<and> stringify_at ''  '' (JStr ''object'') = [CHR 0x22] @ ''object'' @ [CHR 0x22]"
    by blast
  from doc_tool_returns_schema[OF b1 h2 b3, where tools = "[?tool]" and found = ?tool
      and K = "Some ''key''" and upstream = "\<lambda>config. NoResponse ''offline''"
      and ind = "[]" and n = "''1''" and t = "''object''" and xs = "[]" and kvs = "[]"
      and w = JNull] absent number
  have second: "call_tool (Some ''key'') [?tool] (\<lambda>config. NoResponse ''offline'') ''doc''
      (Some [(''tool'', JStr ''namespace_getRanks'')])
     = (Rejected (Mcp (McpError MethodNotFound
          (''Tool '' @ [CHR 0x27] @ ''getRanks'' @ [CHR 0x27] @ '' not found.''))), [])
     \<and> stringify_at [] (JNum ''1'') = ''1''"
    by blast
  from first second show ?thesis unfolding schema by blast
qed

text \<open>
  As C7 is worded, every request for \<^verbatim>\<open>doc\<close> ends in the schema or in
  \<^verbatim>\<open>MethodNotFound\<close>. A \<^verbatim>\<open>tool\<close> argument without string form, an object with a
  \<^verbatim>\<open>toString\<close> member of its own that is no function, makes \<^verbatim>\<open>String\<close> of line 110
  throw a \<^verbatim>\<open>TypeError\<close>, outside the \<^verbatim>\<open>try\<close> block: the call is rejected with it.
\<close>

theorem doc_tool_returns_schema_counterexample:
  "call_tool (Some ''key'')
      [\<lparr>name = ''getBacklinks'', inputSchema = JObj [(''type'', JStr ''object'')],
        original_method = Some ''GET'', original_path = Some ''/v3/{target}'',
        original_parameters = None, original_request_body = None\<rparr>]
      (\<lambda>config. NoResponse ''offline'') ''doc''
      (Some [(''tool'', JObj [(''toString'', JNull)])])
     = (Rejected (OtherError ''Cannot convert object to primitive value''), [])"
  by (simp add: call_tool_def doc_tool_def lookup_def cannot_convert_def)

section \<open>Successful responses\<close>




end
